theory Spec2Isabelle
  imports Main
begin

section \<open>Data model\<close>

text \<open>
  A Buffer is a sequence of bytes. A unit is a JavaScript string, held here as
  the bytes of its UTF-8 encoding, so that \<^verbatim>\<open>Buffer.from(str)\<close> is the
  identity, and \<^verbatim>\<open>buffer.toString()\<close> is the identity on the bytes of a string.
\<close>

type_synonym bytes = string

text \<open>
  The configuration object of the constructor. The two separators are documented as
  single ASCII characters and are held as one \<open>char\<close> each; the ready marker is
  compared and written as a whole string.
\<close>

record config =
  START_OF_TRANSMISSION :: string
  RECORD_SEPARATOR :: char
  UNIT_SEPARATOR :: char
  KEEP_ALIVE :: nat

definition default_config :: config where
  "default_config =
     \<lparr>START_OF_TRANSMISSION = [CHR 0x02],
      RECORD_SEPARATOR = CHR 0x1E,
      UNIT_SEPARATOR = CHR 0x1F,
      KEEP_ALIVE = 60000\<rparr>"

text \<open>
  Error objects. \<open>Error\<close> carries the message, the \<open>code\<close> property, the
  \<open>cause\<close> property, the \<open>socket\<close> property with its enumerable attribute,
  and the \<open>record\<close> property. \<open>TypeError\<close> is what the runtime throws when a
  Buffer operation is applied to \<open>undefined\<close>.
\<close>

datatype 'a property = Property (prop_value: 'a) (enumerable: bool)

datatype 's js_error =
    Error string "string option" "'s cause" "'s property option" "string list option"
  | TypeError string
and 's cause =
    Undefined
  | Text string
  | Reasons "'s js_error list"
  | Caused "'s js_error"

fun code_of :: "'s js_error \<Rightarrow> string option" where
  "code_of (Error m c ca so r) = c"
| "code_of (TypeError m) = None"

fun cause_of :: "'s js_error \<Rightarrow> 's cause" where
  "cause_of (Error m c ca so r) = ca"
| "cause_of (TypeError m) = Undefined"

fun socket_of :: "'s js_error \<Rightarrow> 's property option" where
  "socket_of (Error m c ca so r) = so"
| "socket_of (TypeError m) = None"

fun record_of :: "'s js_error \<Rightarrow> string list option" where
  "record_of (Error m c ca so r) = r"
| "record_of (TypeError m) = None"

fun set_record :: "'s js_error \<Rightarrow> string list \<Rightarrow> 's js_error" where
  "set_record (Error m c ca so r) units = Error m c ca so (Some units)"
| "set_record (TypeError m) units = TypeError m"

text \<open>
  The listeners this module registers on a socket, by the event they listen to:
  \<open>BufferData\<close> is \<^verbatim>\<open>this.buffer.bind(this, socket)\<close>; \<open>ConnectData\<close>,
  \<open>ConnectClose\<close> and \<open>ConnectError\<close> are the three closures of
  \<^verbatim>\<open>#createClient\<close>. A listener is registered with \<^verbatim>\<open>on\<close> or with
  \<^verbatim>\<open>once\<close>.
\<close>

datatype data_handler = BufferData | ConnectData

datatype close_handler = ConnectClose

datatype error_handler = ConnectError

datatype 'h listener = On 'h | Once 'h

fun handler_of :: "'h listener \<Rightarrow> 'h" where
  "handler_of (On h) = h"
| "handler_of (Once h) = h"

fun is_once :: "'h listener \<Rightarrow> bool" where
  "is_once (On h) = False"
| "is_once (Once h) = True"

record socket =
  authorized :: bool
  writable :: bool
  destroyed :: bool
  paused :: bool
  keepAlive :: "(bool \<times> nat) option"
  on_data :: "data_handler listener list"
  on_close :: "close_handler listener list"
  on_error :: "error_handler listener list"

datatype 's promise = Pending | Accepted 's | Rejected "'s js_error"

text \<open>
  The state a Channel instance works on: its \<open>config\<close>, its private
  \<open>#buffer\<close> WeakMap, the trace of \<^verbatim>\<open>this.emit('record', units, socket)\<close>
  calls, the socket objects, the trace of \<^verbatim>\<open>socket.write(bytes)\<close> calls
  and the promise that \<^verbatim>\<open>#createClient\<close> returned for a socket.
\<close>

record 's world =
  config :: config
  buffer_map :: "'s \<rightharpoonup> bytes"
  emitted :: "(string list \<times> 's) list"
  sockets :: "'s \<Rightarrow> socket"
  wire :: "('s \<times> bytes) list"
  promise :: "'s \<rightharpoonup> 's promise"

section \<open>Library functions of the runtime\<close>

text \<open>\<^verbatim>\<open>Array.prototype.join\<close> with a one-character separator.\<close>

fun join :: "string list \<Rightarrow> char \<Rightarrow> string" where
  "join [] sep = []"
| "join [u] sep = u"
| "join (u # v # us) sep = u @ sep # join (v # us) sep"

text \<open>
  \<^verbatim>\<open>String.prototype.split\<close> with a one-character separator: the empty string
  splits into one empty string.
\<close>

fun split :: "string \<Rightarrow> char \<Rightarrow> string list" where
  "split [] sep = [[]]"
| "split (c # cs) sep =
     (if c = sep then [] # split cs sep
      else (c # hd (split cs sep)) # tl (split cs sep))"

text \<open>\<^verbatim>\<open>Buffer.prototype.indexOf\<close>: the first position of the byte, or -1.\<close>

fun indexOf :: "bytes \<Rightarrow> char \<Rightarrow> int" where
  "indexOf [] c = - 1"
| "indexOf (b # bs) c =
     (if b = c then 0
      else if indexOf bs c = - 1 then - 1
      else indexOf bs c + 1)"

text \<open>\<^verbatim>\<open>buffer.slice(start, end)\<close> and \<^verbatim>\<open>buffer.slice(start)\<close> for indices
  that are not negative.\<close>

definition slice :: "bytes \<Rightarrow> int \<Rightarrow> int \<Rightarrow> bytes" where
  "slice b start end = drop (nat start) (take (nat end) b)"

definition slice_from :: "bytes \<Rightarrow> int \<Rightarrow> bytes" where
  "slice_from b start = drop (nat start) b"

text \<open>
  \<^verbatim>\<open>Buffer.prototype.toString()\<close>: the bytes decoded as UTF-8, the text held again
  as its UTF-8 bytes. Bytes that are UTF-8 text come back unchanged. A byte that cannot
  start a sequence is replaced by U+FFFD (the bytes EF BF BD). A sequence that is cut
  short, by the end of the bytes or by a byte that cannot continue it, is replaced by
  one U+FFFD, and the byte that cut it short is read again as the start of a sequence.
  \<open>needed\<close> counts the continuation bytes still expected, \<open>lo\<close> and \<open>hi\<close> bound
  the next one, \<open>seen\<close> holds the bytes of the sequence read so far.
\<close>

definition replacement :: bytes where
  "replacement = [CHR 0xEF, CHR 0xBF, CHR 0xBD]"

function utf8_decode :: "nat \<Rightarrow> nat \<Rightarrow> nat \<Rightarrow> bytes \<Rightarrow> bytes \<Rightarrow> bytes" where
  "utf8_decode needed lo hi seen [] = (if needed = 0 then [] else replacement)"
| "utf8_decode needed lo hi seen (b # bs) =
     (let v = (of_char b :: nat) in
      if needed = 0 then
        (if v \<le> 0x7F then b # utf8_decode 0 0x80 0xBF [] bs
         else if 0xC2 \<le> v \<and> v \<le> 0xDF then utf8_decode 1 0x80 0xBF [b] bs
         else if 0xE0 \<le> v \<and> v \<le> 0xEF then
           utf8_decode 2 (if v = 0xE0 then 0xA0 else 0x80) (if v = 0xED then 0x9F else 0xBF) [b] bs
         else if 0xF0 \<le> v \<and> v \<le> 0xF4 then
           utf8_decode 3 (if v = 0xF0 then 0x90 else 0x80) (if v = 0xF4 then 0x8F else 0xBF) [b] bs
         else replacement @ utf8_decode 0 0x80 0xBF [] bs)
      else if lo \<le> v \<and> v \<le> hi then
        (if needed = 1 then seen @ [b] @ utf8_decode 0 0x80 0xBF [] bs
         else utf8_decode (needed - 1) 0x80 0xBF (seen @ [b]) bs)
      else replacement @ utf8_decode 0 0x80 0xBF [] (b # bs))"
  by pat_completeness auto
termination
  by (relation "measure (\<lambda>(needed, lo, hi, seen, bs). 2 * length bs + (if needed = 0 then 0 else 1))")
     auto

definition toString :: "bytes \<Rightarrow> string" where
  "toString b = utf8_decode 0 0x80 0xBF [] b"

section \<open>The framing codec\<close>

definition init :: "'s world \<Rightarrow> 's \<Rightarrow> 's world" where
  "init this socket = this\<lparr>buffer_map := (buffer_map this)(socket \<mapsto> [])\<rparr>"

definition encode :: "'s world \<Rightarrow> string list \<Rightarrow> bytes" where
  "encode this units =
     (let rec = join units (UNIT_SEPARATOR (config this))
      in rec @ [RECORD_SEPARATOR (config this)])"

definition findRecordSeparator :: "'s world \<Rightarrow> 's \<Rightarrow> 's js_error + int" where
  "findRecordSeparator this socket =
     (case buffer_map this socket of
        None \<Rightarrow> Inl (TypeError ''Cannot read properties of undefined'')
      | Some b \<Rightarrow> Inr (indexOf b (RECORD_SEPARATOR (config this))))"

lemma indexOf_range: "indexOf b c = - 1 \<or> (0 \<le> indexOf b c \<and> nat (indexOf b c) < length b)"
  by (induction b) auto

text \<open>
  The loop of the generator, drained: each round yields one unit list and stores the
  rest of the buffer; the loop ends when no record separator is left. The text of a
  record is taken to be its bytes, which is what \<^verbatim>\<open>record.toString()\<close> returns
  for the bytes of a string, as every record is that \<open>encode\<close> makes from strings.
\<close>

function decode_loop :: "'s world \<Rightarrow> 's \<Rightarrow> 's js_error + ('s world \<times> string list list)" where
  "decode_loop this socket =
     (case findRecordSeparator this socket of
        Inl e \<Rightarrow> Inl e
      | Inr index \<Rightarrow>
          if - 1 \<noteq> index then
            (case buffer_map this socket of
               None \<Rightarrow> Inl (TypeError ''Cannot read properties of undefined'')
             | Some buffered \<Rightarrow>
                 (let rec = slice buffered 0 index;
                      units = split rec (UNIT_SEPARATOR (config this));
                      this' = this\<lparr>buffer_map :=
                                (buffer_map this)(socket \<mapsto> slice_from buffered (index + 1))\<rparr>
                  in case decode_loop this' socket of
                       Inl e \<Rightarrow> Inl e
                     | Inr (this'', rest) \<Rightarrow> Inr (this'', units # rest)))
          else Inr (this, []))"
  by pat_completeness auto
termination
proof (relation "measure (\<lambda>(this, socket). case buffer_map this socket of None \<Rightarrow> 0 | Some b \<Rightarrow> length b)")
  show "wf (measure (\<lambda>(this :: 's world, socket). case buffer_map this socket of None \<Rightarrow> 0 | Some b \<Rightarrow> length b))"
    by simp
next
  fix this :: "'s world" and socket :: 's and index :: int and buffered rec units this'
  assume f: "findRecordSeparator this socket = Inr index"
    and i: "- 1 \<noteq> index"
    and b: "buffer_map this socket = Some buffered"
    and t: "this' = this\<lparr>buffer_map := (buffer_map this)(socket \<mapsto> slice_from buffered (index + 1))\<rparr>"
  from f b have idx: "index = indexOf buffered (RECORD_SEPARATOR (config this))"
    by (simp add: findRecordSeparator_def)
  with i indexOf_range [of buffered "RECORD_SEPARATOR (config this)"]
  have "0 \<le> index" and "nat index < length buffered"
    by auto
  then have "length (slice_from buffered (index + 1)) < length buffered"
    by (simp add: slice_from_def nat_add_distrib)
  with b t show "((this', socket), (this, socket))
      \<in> measure (\<lambda>(this, socket). case buffer_map this socket of None \<Rightarrow> 0 | Some b \<Rightarrow> length b)"
    by simp
qed

declare decode_loop.simps [simp del]

definition decode :: "'s world \<Rightarrow> 's \<Rightarrow> bytes \<Rightarrow> 's js_error + ('s world \<times> string list list)" where
  "decode this socket buffer =
     (case buffer_map this socket of
        None \<Rightarrow> Inl (TypeError ''The list[0] argument must be an instance of Buffer'')
      | Some old \<Rightarrow>
          decode_loop (this\<lparr>buffer_map := (buffer_map this)(socket \<mapsto> old @ buffer)\<rparr>) socket)"


definition emit_record :: "'s world \<Rightarrow> string list \<Rightarrow> 's \<Rightarrow> 's world" where
  "emit_record this units socket = this\<lparr>emitted := emitted this @ [(units, socket)]\<rparr>"

text \<open>
  \<^verbatim>\<open>buffer(socket, buffer)\<close> drains the generator and emits one \<open>record\<close> event
  for each unit list, in the order the generator yields them.
\<close>

definition buffer :: "'s world \<Rightarrow> 's \<Rightarrow> bytes \<Rightarrow> 's js_error + 's world" where
  "buffer this socket bytes =
     (case decode this socket bytes of
        Inl e \<Rightarrow> Inl e
      | Inr (this', recs) \<Rightarrow> Inr (foldl (\<lambda>w units. emit_record w units socket) this' recs))"

section \<open>Transmit and broadcast\<close>

text \<open>\<^verbatim>\<open>socket.write(bytes)\<close>: the call is appended to the trace of writes.\<close>

definition socket_write :: "'s world \<Rightarrow> 's \<Rightarrow> bytes \<Rightarrow> 's world" where
  "socket_write this socket bytes = this\<lparr>wire := wire this @ [(socket, bytes)]\<rparr>"

text \<open>
  The error object built in the else branch of \<^verbatim>\<open>#transmit\<close>: the \<open>socket\<close>
  property is defined with \<^verbatim>\<open>Object.defineProperty\<close> and a descriptor that
  names only the value, so it is not enumerable; no \<open>record\<close> property is set there.
\<close>

definition transmit_error :: "'s \<Rightarrow> 's js_error" where
  "transmit_error socket =
     Error ''Could not write record to socket''
       (Some ''E_TCP_RECORD_CHANNEL_TRANSMIT'')
       (Text ''Socket is not writable'')
       (Some (Property socket False))
       None"

text \<open>The private method \<^verbatim>\<open>#transmit(socket, record)\<close>.\<close>

definition private_transmit :: "'s world \<Rightarrow> 's \<Rightarrow> bytes \<Rightarrow> 's js_error + 's world" where
  "private_transmit this socket rec =
     (if writable (sockets this socket) then Inr (socket_write this socket rec)
      else Inl (transmit_error socket))"

definition transmit :: "'s world \<Rightarrow> 's \<Rightarrow> string list \<Rightarrow> 's js_error + 's world" where
  "transmit this socket units =
     (let rec = encode this units
      in case private_transmit this socket rec of
           Inr this' \<Rightarrow> Inr this'
         | Inl error \<Rightarrow>
             Inl (if Some ''E_TCP_RECORD_CHANNEL_TRANSMIT'' = code_of error
                  then set_record error units else error))"

text \<open>
  The loop of \<open>broadcast\<close>: a failure is pushed on \<open>reasons\<close> and the loop goes on
  with the next socket.
\<close>

fun broadcast_loop ::
  "'s world \<Rightarrow> bytes \<Rightarrow> 's list \<Rightarrow> 's js_error list \<Rightarrow> 's world \<times> 's js_error list" where
  "broadcast_loop this rec [] reasons = (this, reasons)"
| "broadcast_loop this rec (socket # rest) reasons =
     (case private_transmit this socket rec of
        Inr this' \<Rightarrow> broadcast_loop this' rec rest reasons
      | Inl reason \<Rightarrow> broadcast_loop this rec rest (reasons @ [reason]))"

text \<open>
  \<open>broadcast\<close> returns the state after all attempts together with the error it
  throws, if any: the writes that succeeded stay in the trace when it throws.
\<close>

definition broadcast :: "'s world \<Rightarrow> 's list \<Rightarrow> string list \<Rightarrow> 's world \<times> 's js_error option" where
  "broadcast this socks units =
     (let rec = encode this units;
          (this', reasons) = broadcast_loop this rec socks []
      in if length reasons \<noteq> 0
         then (this', Some (Error ''Could not broadcast record to all sockets''
                              (Some ''E_TCP_RECORD_CHANNEL_BROADCAST'')
                              (Reasons reasons)
                              None
                              (Some units)))
         else (this', None))"

section \<open>Connection lifecycle\<close>

text \<open>The socket methods the module calls, as updates of the socket object.\<close>

definition update_socket :: "'s world \<Rightarrow> 's \<Rightarrow> (socket \<Rightarrow> socket) \<Rightarrow> 's world" where
  "update_socket this socket f = this\<lparr>sockets := (sockets this)(socket := f (sockets this socket))\<rparr>"

text \<open>\<^verbatim>\<open>socket.destroy()\<close>: the socket is destroyed and no longer writable.\<close>

definition destroy :: "'s world \<Rightarrow> 's \<Rightarrow> 's world" where
  "destroy this socket = update_socket this socket (\<lambda>sock. sock\<lparr>destroyed := True, writable := False\<rparr>)"

definition setKeepAlive :: "'s world \<Rightarrow> 's \<Rightarrow> bool \<Rightarrow> nat \<Rightarrow> 's world" where
  "setKeepAlive this socket enable delay =
     update_socket this socket (\<lambda>sock. sock\<lparr>keepAlive := Some (enable, delay)\<rparr>)"

definition pause :: "'s world \<Rightarrow> 's \<Rightarrow> 's world" where
  "pause this socket = update_socket this socket (\<lambda>sock. sock\<lparr>paused := True\<rparr>)"

definition resume :: "'s world \<Rightarrow> 's \<Rightarrow> 's world" where
  "resume this socket = update_socket this socket (\<lambda>sock. sock\<lparr>paused := False\<rparr>)"

definition add_data_listener :: "'s world \<Rightarrow> 's \<Rightarrow> data_handler listener \<Rightarrow> 's world" where
  "add_data_listener this socket l =
     update_socket this socket (\<lambda>sock. sock\<lparr>on_data := on_data sock @ [l]\<rparr>)"



text \<open>\<^verbatim>\<open>socket.removeAllListeners('close')\<close> and \<^verbatim>\<open>socket.removeAllListeners('error')\<close>.\<close>

definition removeAllListeners_close :: "'s world \<Rightarrow> 's \<Rightarrow> 's world" where
  "removeAllListeners_close this socket = update_socket this socket (\<lambda>sock. sock\<lparr>on_close := []\<rparr>)"

definition removeAllListeners_error :: "'s world \<Rightarrow> 's \<Rightarrow> 's world" where
  "removeAllListeners_error this socket = update_socket this socket (\<lambda>sock. sock\<lparr>on_error := []\<rparr>)"

text \<open>
  The authorization callback is user code that receives the socket and may change it.
  \<open>onConnection_resumed\<close> is the body of \<open>onConnection\<close> after
  \<^verbatim>\<open>await plugin(socket)\<close>; events that arrive while the callback is awaited are
  processed between the two. The result pairs the state with the error the method
  rejects with, if any.
\<close>

definition call_plugin :: "'s world \<Rightarrow> (socket \<Rightarrow> socket) option \<Rightarrow> 's \<Rightarrow> 's world" where
  "call_plugin this plugin socket =
     (case plugin of None \<Rightarrow> this | Some p \<Rightarrow> update_socket this socket p)"

definition onConnection_resumed :: "'s world \<Rightarrow> 's \<Rightarrow> 's world \<times> 's js_error option" where
  "onConnection_resumed this socket =
     (if authorized (sockets this socket) then
        (let this1 = init this socket;
             this2 = add_data_listener this1 socket (On BufferData);
             this3 = setKeepAlive this2 socket True (KEEP_ALIVE (config this));
             this4 = resume this3 socket
         in case private_transmit this4 socket (START_OF_TRANSMISSION (config this)) of
              Inr this5 \<Rightarrow> (this5, None)
            | Inl e \<Rightarrow> (this4, Some e))
      else (destroy this socket, None))"

definition onConnection :: "'s world \<Rightarrow> (socket \<Rightarrow> socket) option \<Rightarrow> 's \<Rightarrow> 's world \<times> 's js_error option" where
  "onConnection this plugin socket = onConnection_resumed (call_plugin this plugin socket) socket"

text \<open>A promise settles once: \<open>accept\<close> and \<open>reject\<close> change a pending promise only.\<close>

definition accept :: "'s world \<Rightarrow> 's \<Rightarrow> 's world" where
  "accept this socket =
     (case promise this socket of
        Some Pending \<Rightarrow> this\<lparr>promise := (promise this)(socket \<mapsto> Accepted socket)\<rparr>
      | _ \<Rightarrow> this)"

definition reject :: "'s world \<Rightarrow> 's \<Rightarrow> 's js_error \<Rightarrow> 's world" where
  "reject this socket error =
     (case promise this socket of
        Some Pending \<Rightarrow> this\<lparr>promise := (promise this)(socket \<mapsto> Rejected error)\<rparr>
      | _ \<Rightarrow> this)"

text \<open>The three error objects of \<^verbatim>\<open>#createClient\<close>.\<close>

definition closed_before_ready :: "'s js_error" where
  "closed_before_ready =
     Error ''Could not connect to server''
       (Some ''E_TCP_RECORD_CHANNEL_CLIENT_CONNECT'')
       (Caused (Error ''Connection closed before ready''
                  (Some ''E_TCP_RECORD_CHANNEL_CLOSED_BEFORE_READY'') Undefined None None))
       None None"

definition connect_errored :: "'s js_error \<Rightarrow> 's js_error" where
  "connect_errored reason =
     Error ''Error when connecting to server''
       (Some ''E_TCP_RECORD_CHANNEL_CLIENT_CONNECT'')
       (Caused reason)
       None None"

definition invalid_ready_signal :: "bytes \<Rightarrow> 's js_error" where
  "invalid_ready_signal bytes =
     Error ''Server not ready''
       (Some ''E_TCP_RECORD_CHANNEL_CLIENT_CONNECT'')
       (Caused (Error (''Invalid ready signal: '' @ toString bytes)
                  (Some ''E_TCP_RECORD_CHANNEL_INVALID_READY_SIGNAL'') Undefined None None))
       None None"


text \<open>The bodies of the listeners.\<close>

definition call_data_handler :: "'s world \<Rightarrow> 's \<Rightarrow> data_handler \<Rightarrow> bytes \<Rightarrow> 's js_error + 's world" where
  "call_data_handler this socket h bytes =
     (case h of
        BufferData \<Rightarrow> buffer this socket bytes
      | ConnectData \<Rightarrow>
          (let this1 = pause this socket
           in if START_OF_TRANSMISSION (config this) = toString bytes then
                (let this2 = removeAllListeners_close this1 socket;
                     this3 = removeAllListeners_error this2 socket;
                     this4 = add_data_listener this3 socket (On BufferData);
                     this5 = resume this4 socket
                 in Inr (accept this5 socket))
              else
                (let this2 = destroy this1 socket
                 in Inr (reject this2 socket (invalid_ready_signal bytes)))))"

definition call_close_handler :: "'s world \<Rightarrow> 's \<Rightarrow> close_handler \<Rightarrow> 's js_error + 's world" where
  "call_close_handler this socket h =
     (case h of ConnectClose \<Rightarrow> Inr (reject this socket closed_before_ready))"

definition call_error_handler :: "'s world \<Rightarrow> 's \<Rightarrow> error_handler \<Rightarrow> 's js_error \<Rightarrow> 's js_error + 's world" where
  "call_error_handler this socket h reason =
     (case h of ConnectError \<Rightarrow> Inr (reject this socket (connect_errored reason)))"

text \<open>
  The event emitter of a socket: \<open>emit\<close> calls the listeners registered when the
  event is emitted, in the order of their registration; a listener registered with
  \<^verbatim>\<open>once\<close> is removed just before it is called. An \<open>error\<close> event that has no
  listener is thrown.
\<close>

fun emit_data_to ::
  "'s world \<Rightarrow> 's \<Rightarrow> bytes \<Rightarrow> data_handler listener list \<Rightarrow> 's js_error + 's world" where
  "emit_data_to this socket bytes [] = Inr this"
| "emit_data_to this socket bytes (l # ls) =
     (let this1 = (if is_once l
                   then update_socket this socket (\<lambda>sock. sock\<lparr>on_data := remove1 l (on_data sock)\<rparr>)
                   else this)
      in case call_data_handler this1 socket (handler_of l) bytes of
           Inl e \<Rightarrow> Inl e
         | Inr this2 \<Rightarrow> emit_data_to this2 socket bytes ls)"

fun emit_close_to ::
  "'s world \<Rightarrow> 's \<Rightarrow> close_handler listener list \<Rightarrow> 's js_error + 's world" where
  "emit_close_to this socket [] = Inr this"
| "emit_close_to this socket (l # ls) =
     (let this1 = (if is_once l
                   then update_socket this socket (\<lambda>sock. sock\<lparr>on_close := remove1 l (on_close sock)\<rparr>)
                   else this)
      in case call_close_handler this1 socket (handler_of l) of
           Inl e \<Rightarrow> Inl e
         | Inr this2 \<Rightarrow> emit_close_to this2 socket ls)"

fun emit_error_to ::
  "'s world \<Rightarrow> 's \<Rightarrow> 's js_error \<Rightarrow> error_handler listener list \<Rightarrow> 's js_error + 's world" where
  "emit_error_to this socket reason [] = Inr this"
| "emit_error_to this socket reason (l # ls) =
     (let this1 = (if is_once l
                   then update_socket this socket (\<lambda>sock. sock\<lparr>on_error := remove1 l (on_error sock)\<rparr>)
                   else this)
      in case call_error_handler this1 socket (handler_of l) reason of
           Inl e \<Rightarrow> Inl e
         | Inr this2 \<Rightarrow> emit_error_to this2 socket reason ls)"

datatype 's event = Data bytes | Close | Failed "'s js_error"

definition emit :: "'s world \<Rightarrow> 's \<Rightarrow> 's event \<Rightarrow> 's js_error + 's world" where
  "emit this socket ev =
     (case ev of
        Data bytes \<Rightarrow> emit_data_to this socket bytes (on_data (sockets this socket))
      | Close \<Rightarrow> emit_close_to this socket (on_close (sockets this socket))
      | Failed reason \<Rightarrow>
          (if on_error (sockets this socket) = [] then Inl reason
           else emit_error_to this socket reason (on_error (sockets this socket))))"

text \<open>The events of one socket, processed one after the other.\<close>

fun emit_all :: "'s world \<Rightarrow> 's \<Rightarrow> 's event list \<Rightarrow> 's js_error + 's world" where
  "emit_all this socket [] = Inr this"
| "emit_all this socket (ev # evs) =
     (case emit this socket ev of
        Inl e \<Rightarrow> Inl e
      | Inr this' \<Rightarrow> emit_all this' socket evs)"

section \<open>Scenarios the properties are stated on\<close>

text \<open>
  A freshly created socket object, and the state right after the constructor has run:
  \<open>cfg\<close> is the configuration once the defaults are merged with the argument of
  \<^verbatim>\<open>new Channel(config)\<close>, the WeakMap is empty, nothing is emitted or written
  yet and every socket is fresh.
\<close>

definition new_socket :: socket where
  "new_socket =
     \<lparr>authorized = False, writable = True, destroyed = False, paused = False,
      keepAlive = None, on_data = [], on_close = [], on_error = []\<rparr>"

definition constructor :: "config \<Rightarrow> 's world" where
  "constructor cfg =
     \<lparr>config = cfg, buffer_map = Map.empty, emitted = [],
      sockets = (\<lambda>s. new_socket), wire = [], promise = Map.empty\<rparr>"



text \<open>
  The wire format in the words of the specification: unit 0, then for every further
  unit a unit separator and the unit, then one record separator.
\<close>

definition wire_record :: "config \<Rightarrow> string list \<Rightarrow> bytes" where
  "wire_record cfg units =
     concat (map (\<lambda>i. (if i = 0 then [] else [UNIT_SEPARATOR cfg]) @ units ! i) [0..<length units])
     @ [RECORD_SEPARATOR cfg]"


section \<open>Facts about the runtime functions\<close>

lemma split_nonempty: "split b c \<noteq> []"
  by (induction b) auto

lemma split_free: "c \<notin> set b \<Longrightarrow> split b c = [b]"
  by (induction b) auto

lemma split_append_sep: "split (x @ c # y) c = split x c @ split y c"
proof (induction x)
  case Nil
  then show ?case by simp
next
  case (Cons a x)
  then show ?case using split_nonempty [of x c]
    by (cases "split x c") auto
qed

lemma indexOf_free: "c \<notin> set b \<Longrightarrow> indexOf b c = - 1"
  by (induction b) auto

lemma indexOf_first: "c \<notin> set x \<Longrightarrow> indexOf (x @ c # y) c = int (length x)"
  by (induction x) auto



section \<open>The decode loop in closed form\<close>

text \<open>
  The loop yields the pieces of the buffer that end in a record separator, each split
  into units, and stores what follows the last record separator.
\<close>

lemma decode_loop_eq:
  "buffer_map this socket = Some b \<Longrightarrow>
   decode_loop this socket =
     Inr (this\<lparr>buffer_map := (buffer_map this)(socket \<mapsto> last (split b (RECORD_SEPARATOR (config this))))\<rparr>,
          map (\<lambda>r. split r (UNIT_SEPARATOR (config this))) (butlast (split b (RECORD_SEPARATOR (config this)))))"
proof (induction "length b" arbitrary: b this rule: less_induct)
  case less
  let ?rs = "RECORD_SEPARATOR (config this)"
  show ?case
  proof (cases "?rs \<in> set b")
    case False
    then have "indexOf b ?rs = - 1" by (rule indexOf_free)
    with less.prems False show ?thesis
      by (subst decode_loop.simps) (simp add: findRecordSeparator_def split_free map_upd_triv)
  next
    case True
    then obtain x y where b: "b = x @ ?rs # y" and x: "?rs \<notin> set x"
      by (meson split_list_first)
    let ?this' = "this\<lparr>buffer_map := (buffer_map this)(socket \<mapsto> y)\<rparr>"
    have idx: "indexOf b ?rs = int (length x)"
      using b x by (simp add: indexOf_first)
    have len: "length y < length b" using b by simp
    have bm: "buffer_map ?this' socket = Some y" by simp
    have ih: "decode_loop ?this' socket =
       Inr (?this'\<lparr>buffer_map := (buffer_map ?this')(socket \<mapsto> last (split y (RECORD_SEPARATOR (config ?this'))))\<rparr>,
          map (\<lambda>r. split r (UNIT_SEPARATOR (config ?this'))) (butlast (split y (RECORD_SEPARATOR (config ?this')))))"
      by (rule less.hyps [OF len bm])
    have sp: "split b ?rs = x # split y ?rs"
      using b x by (simp add: split_append_sep split_free)
    show ?thesis
      apply (subst decode_loop.simps)
      using less.prems idx b ih sp split_nonempty [of y ?rs]
      apply (simp add: findRecordSeparator_def slice_def slice_from_def Let_def nat_add_distrib)
      done
  qed
qed

lemma decode_eq:
  "buffer_map this socket = Some old \<Longrightarrow>
   decode this socket bytes =
     Inr (this\<lparr>buffer_map :=
            (buffer_map this)(socket \<mapsto> last (split (old @ bytes) (RECORD_SEPARATOR (config this))))\<rparr>,
          map (\<lambda>r. split r (UNIT_SEPARATOR (config this)))
            (butlast (split (old @ bytes) (RECORD_SEPARATOR (config this)))))"
  by (simp add: decode_def decode_loop_eq)



lemma init_buffer: "buffer_map (init this socket) socket = Some []"
  by (simp add: init_def)

lemma init_config: "config (init this socket) = config this"
  by (simp add: init_def)

lemma init_reset: "(init this socket)\<lparr>buffer_map := (buffer_map (init this socket))(socket \<mapsto> [])\<rparr> = init this socket"
  by (simp add: init_def)

lemma decode_init:
  "decode (init this socket) socket bytes =
     Inr ((init this socket)\<lparr>buffer_map :=
            (buffer_map (init this socket))(socket \<mapsto> last (split bytes (RECORD_SEPARATOR (config this))))\<rparr>,
          map (\<lambda>r. split r (UNIT_SEPARATOR (config this)))
            (butlast (split bytes (RECORD_SEPARATOR (config this)))))"
  using decode_eq [OF init_buffer, of this socket bytes] by (simp add: init_config)





lemma foldl_emit:
  "foldl (\<lambda>w units. emit_record w units socket) this recs =
     this\<lparr>emitted := emitted this @ map (\<lambda>units. (units, socket)) recs\<rparr>"
  by (induction recs arbitrary: this) (simp_all add: emit_record_def)

lemma upt_shift: "[0..<Suc n] = 0 # map Suc [0..<n]"
  by (simp add: upt_conv_Cons map_Suc_upt del: upt_Suc)

lemma join_concat:
  "join units c = concat (map (\<lambda>i. (if i = 0 then [] else [c]) @ units ! i) [0..<length units])"
proof (induction units c rule: join.induct)
  case (1 sep)
  then show ?case by simp
next
  case (2 u sep)
  then show ?case by simp
next
  case (3 u v us sep)
  have "concat (map (\<lambda>i. (if i = 0 then [] else [sep]) @ (u # v # us) ! i) [0..<length (u # v # us)])
      = u @ concat (map (\<lambda>i. [sep] @ (v # us) ! i) [0..<length (v # us)])"
    by (subst length_Cons, subst upt_shift) (simp add: comp_def del: upt_Suc)
  also have "concat (map (\<lambda>i. [sep] @ (v # us) ! i) [0..<length (v # us)])
      = sep # concat (map (\<lambda>i. (if i = 0 then [] else [sep]) @ (v # us) ! i) [0..<length (v # us)])"
    by (subst (1 2) length_Cons, subst (1 2) upt_shift) (simp add: comp_def del: upt_Suc)
  finally show ?case using 3 by simp
qed

lemma join_length: "length (join units c) = sum_list (map length units) + (length units - 1)"
  by (induction units c rule: join.induct) auto





lemma decode_records_nonempty:
  assumes "decode this socket bytes = Inr (this1, recs)" and "units \<in> set recs"
  shows "units \<noteq> []"
proof (cases "buffer_map this socket")
  case None
  with assms(1) show ?thesis by (simp add: decode_def)
next
  case (Some old)
  from assms(1) have "recs = map (\<lambda>r. split r (UNIT_SEPARATOR (config this)))
            (butlast (split (old @ bytes) (RECORD_SEPARATOR (config this))))"
    by (simp add: decode_eq [OF Some])
  with assms(2) show ?thesis
    using split_nonempty by auto
qed

lemma decode_emitted:
  assumes "decode this socket bytes = Inr (this1, recs)"
  shows "emitted this1 = emitted this"
proof (cases "buffer_map this socket")
  case None
  with assms(1) show ?thesis by (simp add: decode_def)
next
  case (Some old)
  from assms(1) have "this1 = this\<lparr>buffer_map :=
            (buffer_map this)(socket \<mapsto> last (split (old @ bytes) (RECORD_SEPARATOR (config this))))\<rparr>"
    by (simp add: decode_eq [OF Some])
  then show ?thesis by simp
qed

lemma buffer_emitted:
  assumes b: "buffer this socket bytes = Inr this2"
  shows "\<exists>rs. emitted this2 = emitted this @ map (\<lambda>units. (units, socket)) rs
     \<and> (\<forall>units\<in>set rs. units \<noteq> [])"
proof (cases "decode this socket bytes")
  case (Inl e)
  with b show ?thesis by (simp add: buffer_def)
next
  case (Inr p)
  obtain t rs where p: "p = (t, rs)" by (cases p)
  have d: "decode this socket bytes = Inr (t, rs)"
    using Inr p by simp
  have e: "this2 = t\<lparr>emitted := emitted t @ map (\<lambda>units. (units, socket)) rs\<rparr>"
    using b d by (simp add: buffer_def foldl_emit)
  have et: "emitted t = emitted this"
    using d by (rule decode_emitted)
  have em: "emitted this2 = emitted this @ map (\<lambda>units. (units, socket)) rs"
    using e et by simp
  have ne: "\<forall>units\<in>set rs. units \<noteq> []"
    using decode_records_nonempty [OF d] by blast
  show ?thesis
    using em ne by blast
qed

lemma private_transmit_sockets:
  "private_transmit this socket rec = Inr this' \<Longrightarrow> sockets this' = sockets this"
  by (auto simp: private_transmit_def socket_write_def split: if_splits)

lemma broadcast_loop_eq:
  "broadcast_loop this rec socks reasons =
     (this\<lparr>wire := wire this @ map (\<lambda>s. (s, rec)) (filter (\<lambda>s. writable (sockets this s)) socks)\<rparr>,
      reasons @ map transmit_error (filter (\<lambda>s. \<not> writable (sockets this s)) socks))"
proof (induction socks arbitrary: this reasons)
  case Nil
  show ?case by simp
next
  case (Cons socket rest)
  show ?case
  proof (cases "writable (sockets this socket)")
    case True
    then show ?thesis
      by (simp add: Cons.IH private_transmit_def socket_write_def)
  next
    case False
    then show ?thesis
      by (simp add: Cons.IH private_transmit_def)
  qed
qed

lemma emit_all_no_listener:
  "on_data (sockets this socket) = [] \<Longrightarrow> emit_all this socket (map Data chunks) = Inr this"
  by (induction chunks) (simp_all add: emit_def)

lemma call_plugin_frame:
  "buffer_map (call_plugin this plugin socket) = buffer_map this
   \<and> emitted (call_plugin this plugin socket) = emitted this"
  by (cases plugin) (simp_all add: call_plugin_def update_socket_def)







lemma toString_examples:
  "toString [CHR 0xE2, CHR 0x82, CHR 0xAC] = [CHR 0xE2, CHR 0x82, CHR 0xAC]
   \<and> toString [CHR 0xE2, CHR 0x82] = [CHR 0xEF, CHR 0xBF, CHR 0xBD]
   \<and> toString [CHR 0xC0, CHR 0x80] = [CHR 0xEF, CHR 0xBF, CHR 0xBD, CHR 0xEF, CHR 0xBF, CHR 0xBD]
   \<and> toString [CHR 0xE2, CHR ''a''] = [CHR 0xEF, CHR 0xBF, CHR 0xBD, CHR ''a'']"
  by (simp add: toString_def replacement_def)

section \<open>Facts about the lifecycle\<close>





















section \<open>Properties of the codec\<close>

text \<open>
  C5. For every unit list, \<open>encode\<close> gives the units joined by the unit separator and
  followed by one record separator, which is the wire format as the specification
  words it. Its length is the sum of the unit lengths, plus one separator for every
  unit but the first (none for an empty list: the subtraction stops at zero), plus one
  terminator; an empty list gives the terminator alone. The result depends on
  nothing but the configuration and the units.
\<close>

theorem encode_wire_format:
  "encode this units = wire_record (config this) units
   \<and> length (encode this units) = sum_list (map length units) + (length units - 1) + 1
   \<and> length (encode this []) = 1
   \<and> (config this = config that \<longrightarrow> encode this units = encode that units)"
  by (simp add: encode_def wire_record_def join_length join_concat [symmetric])

theorem encode_wire_format_witness:
  "encode (constructor default_config :: nat world) [''ab'', ''c''] = [CHR ''a'', CHR ''b'', CHR 0x1F, CHR ''c'', CHR 0x1E]
   \<and> wire_record default_config [''ab'', ''c''] = [CHR ''a'', CHR ''b'', CHR 0x1F, CHR ''c'', CHR 0x1E]
   \<and> length (encode (constructor default_config :: nat world) [''ab'', ''c'']) = 5
   \<and> encode (constructor default_config :: nat world) [''ab'', ''c'']
       = encode (init (constructor default_config) (7::nat)) [''ab'', ''c'']"
  using encode_wire_format [of "constructor default_config :: nat world" "[''ab'', ''c'']"
      "init (constructor default_config) (7::nat)"]
  by (simp add: encode_def wire_record_def constructor_def default_config_def init_def)









text \<open>
  C4, as amended. \<open>encode []\<close> is the record separator alone, and decoding that byte
  from an empty buffer yields one record, which holds one empty unit, and leaves the
  buffer empty.
\<close>

theorem zero_unit_record:
  "encode this [] = [RECORD_SEPARATOR (config this)]
   \<and> decode (init this socket) socket [RECORD_SEPARATOR (config this)] =
       Inr (init this socket, [[[]]])"
  by (simp add: encode_def decode_init init_reset)

text \<open>
  The record decoded from the encoding of the empty unit list is not the empty unit
  list.
\<close>

theorem zero_unit_record_counterexample:
  "encode (constructor default_config :: nat world) [] = [CHR 0x1E]
   \<and> decode (init (constructor default_config) (0::nat)) 0 [CHR 0x1E] \<noteq>
       Inr (init (constructor default_config) 0, [[]])"
  by (simp add: encode_def decode_init init_reset constructor_def default_config_def)

text \<open>
  C10. Every record that \<open>decode\<close> yields, and so every \<open>record\<close> event that
  \<open>buffer\<close> emits, holds at least one unit. \<open>encode\<close> is not injective: the empty
  unit list and the list of one empty unit have the same encoding, and both decode to
  the record of one empty unit.
\<close>

theorem records_hold_a_unit:
  "(decode this socket bytes = Inr (this1, recs) \<longrightarrow> (\<forall>units\<in>set recs. units \<noteq> []))
   \<and> (buffer this socket bytes = Inr this2 \<longrightarrow>
        (\<exists>rs. emitted this2 = emitted this @ map (\<lambda>units. (units, socket)) rs
           \<and> (\<forall>units\<in>set rs. units \<noteq> [])))
   \<and> encode this [] = encode this [[]]
   \<and> decode (init this socket) socket (encode this []) = Inr (init this socket, [[[]]])
   \<and> decode (init this socket) socket (encode this [[]]) = Inr (init this socket, [[[]]])"
proof -
  have a: "decode this socket bytes = Inr (this1, recs) \<longrightarrow> (\<forall>units\<in>set recs. units \<noteq> [])"
  proof (intro impI ballI)
    fix units
    assume "decode this socket bytes = Inr (this1, recs)" and "units \<in> set recs"
    then show "units \<noteq> []" by (rule decode_records_nonempty)
  qed
  have b: "buffer this socket bytes = Inr this2 \<longrightarrow>
        (\<exists>rs. emitted this2 = emitted this @ map (\<lambda>units. (units, socket)) rs
           \<and> (\<forall>units\<in>set rs. units \<noteq> []))"
  proof
    assume "buffer this socket bytes = Inr this2"
    then show "\<exists>rs. emitted this2 = emitted this @ map (\<lambda>units. (units, socket)) rs
           \<and> (\<forall>units\<in>set rs. units \<noteq> [])"
      by (rule buffer_emitted)
  qed
  have c: "encode this [] = encode this [[]]"
    by (simp add: encode_def)
  have d: "decode (init this socket) socket (encode this []) = Inr (init this socket, [[[]]])"
    by (simp add: encode_def decode_init init_reset)
  have e: "decode (init this socket) socket (encode this [[]]) = Inr (init this socket, [[[]]])"
    by (simp add: encode_def decode_init init_reset)
  from a b c d e show ?thesis by (intro conjI)
qed

theorem records_hold_a_unit_witness:
  "decode (init (constructor default_config) (0::nat)) 0
      [CHR ''a'', CHR 0x1F, CHR ''b'', CHR 0x1E, CHR 0x1E] =
     Inr (init (constructor default_config) 0, [[''a'', ''b''], [[]]])
   \<and> [''a'', ''b''] \<noteq> []
   \<and> [[]] \<noteq> ([] :: string list)
   \<and> encode (constructor default_config :: nat world) [] =
       encode (constructor default_config :: nat world) [[]]"
proof -
  let ?w = "constructor default_config :: nat world"
  let ?bytes = "[CHR ''a'', CHR 0x1F, CHR ''b'', CHR 0x1E, CHR 0x1E]"
  have c: "config ?w = default_config"
    by (simp add: constructor_def)
  have d: "decode (init ?w 0) 0 ?bytes = Inr (init ?w 0, [[''a'', ''b''], [[]]])"
    by (simp add: decode_init constructor_def default_config_def init_reset)
  note t = records_hold_a_unit [of "init ?w 0" 0 ?bytes "init ?w 0" "[[''a'', ''b''], [[]]]" ?w]
  from t d have n: "\<forall>units\<in>set [[''a'', ''b''], [[]]]. units \<noteq> []"
    by blast
  have e: "encode ?w [] = encode ?w [[]]"
    using records_hold_a_unit [of ?w 0 "[]" ?w "[]" ?w] by blast
  from d n e show ?thesis by simp
qed

section \<open>Properties of transmit and broadcast\<close>

text \<open>
  C6. For every list of destinations, \<open>broadcast\<close> encodes the units once and
  attempts every destination in the order of the list: the trace of writes grows by
  one write of the encoded record for each writable destination, in that order, and
  each destination that is not writable contributes its transmit error, in that
  order, whatever comes before or after it in the list. If no attempt failed nothing
  is thrown; otherwise one broadcast error is thrown whose cause is the list of the
  transmit errors and whose record is the units.
\<close>

theorem broadcast_attempts_all:
  "broadcast this socks units =
     (this\<lparr>wire := wire this @
        map (\<lambda>s. (s, encode this units)) (filter (\<lambda>s. writable (sockets this s)) socks)\<rparr>,
      if filter (\<lambda>s. \<not> writable (sockets this s)) socks = [] then None
      else Some (Error ''Could not broadcast record to all sockets''
                   (Some ''E_TCP_RECORD_CHANNEL_BROADCAST'')
                   (Reasons (map transmit_error (filter (\<lambda>s. \<not> writable (sockets this s)) socks)))
                   None
                   (Some units)))"
  by (simp add: broadcast_def broadcast_loop_eq Let_def)

text \<open>Three destinations, the second not writable.\<close>

theorem broadcast_attempts_all_witness:
  "broadcast (destroy (constructor default_config) (2::nat)) [1, 2, 3] [''x''] =
     ((destroy (constructor default_config) 2)
        \<lparr>wire := [(1, [CHR ''x'', CHR 0x1E]), (3, [CHR ''x'', CHR 0x1E])]\<rparr>,
      Some (Error ''Could not broadcast record to all sockets''
              (Some ''E_TCP_RECORD_CHANNEL_BROADCAST'')
              (Reasons [transmit_error 2])
              None
              (Some [''x''])))"
  using broadcast_attempts_all [of "destroy (constructor default_config) (2::nat)" "[1, 2, 3]" "[''x'']"]
  by (simp add: destroy_def update_socket_def constructor_def new_socket_def encode_def default_config_def)

text \<open>
  C7. \<open>transmit\<close> throws if and only if the destination is not writable when it is
  called. The error then is the transmit error, whose \<open>socket\<close> property is the
  destination and is not enumerable, with the units as its \<open>record\<close>. On a writable
  destination the encoded record is written once and nothing is thrown.
\<close>

theorem transmit_iff_not_writable:
  "transmit this socket units =
     (if writable (sockets this socket)
      then Inr (this\<lparr>wire := wire this @ [(socket, encode this units)]\<rparr>)
      else Inl (Error ''Could not write record to socket''
                  (Some ''E_TCP_RECORD_CHANNEL_TRANSMIT'')
                  (Text ''Socket is not writable'')
                  (Some (Property socket False))
                  (Some units)))
   \<and> ((\<exists>e. transmit this socket units = Inl e) = (\<not> writable (sockets this socket)))
   \<and> (\<forall>e. transmit this socket units = Inl e \<longrightarrow>
          code_of e = Some ''E_TCP_RECORD_CHANNEL_TRANSMIT''
          \<and> socket_of e = Some (Property socket False)
          \<and> record_of e = Some units)"
  by (simp add: transmit_def private_transmit_def transmit_error_def socket_write_def Let_def)

theorem transmit_iff_not_writable_witness:
  "transmit (destroy (constructor default_config) (2::nat)) 1 [''a'', ''b''] =
     Inr ((destroy (constructor default_config) 2)
            \<lparr>wire := [(1, [CHR ''a'', CHR 0x1F, CHR ''b'', CHR 0x1E])]\<rparr>)
   \<and> transmit (destroy (constructor default_config) (2::nat)) 2 [''a'', ''b''] =
     Inl (Error ''Could not write record to socket''
            (Some ''E_TCP_RECORD_CHANNEL_TRANSMIT'')
            (Text ''Socket is not writable'')
            (Some (Property 2 False))
            (Some [''a'', ''b'']))"
  using transmit_iff_not_writable [of "destroy (constructor default_config) (2::nat)" 1 "[''a'', ''b'']"]
    transmit_iff_not_writable [of "destroy (constructor default_config) (2::nat)" 2 "[''a'', ''b'']"]
  by (simp add: destroy_def update_socket_def constructor_def new_socket_def encode_def default_config_def)

section \<open>Properties of the connection lifecycle\<close>

text \<open>
  C9. Take a new server-side connection: the channel holds no buffer for it and,
  once the authorization callback has run, the socket has no \<open>data\<close> listener and
  its \<open>authorized\<close> flag is false. Then bytes that arrive while the callback is
  awaited change nothing; \<open>onConnection\<close> destroys the socket and throws nothing;
  bytes that arrive afterwards change nothing either. No \<open>record\<close> event is emitted,
  no buffer exists for the connection, and the socket is destroyed and not writable.
\<close>

theorem unauthorized_discard:
  assumes "buffer_map this socket = None"
    and "on_data (sockets (call_plugin this plugin socket) socket) = []"
    and "\<not> authorized (sockets (call_plugin this plugin socket) socket)"
  shows "(let w1 = call_plugin this plugin socket; w2 = destroy w1 socket
          in emit_all w1 socket (map Data early) = Inr w1
           \<and> onConnection_resumed w1 socket = (w2, None)
           \<and> onConnection this plugin socket = (w2, None)
           \<and> emit_all w2 socket (map Data late) = Inr w2
           \<and> emitted w2 = emitted this
           \<and> buffer_map w2 socket = None
           \<and> destroyed (sockets w2 socket)
           \<and> \<not> writable (sockets w2 socket))"
proof -
  let ?w1 = "call_plugin this plugin socket"
  let ?w2 = "destroy ?w1 socket"
  have a: "emit_all ?w1 socket (map Data early) = Inr ?w1"
    using assms(2) by (rule emit_all_no_listener)
  have b: "onConnection_resumed ?w1 socket = (?w2, None)"
    using assms(3) by (simp add: onConnection_resumed_def)
  have c: "onConnection this plugin socket = (?w2, None)"
    using b by (simp add: onConnection_def)
  have l: "on_data (sockets ?w2 socket) = []"
    using assms(2) by (simp add: destroy_def update_socket_def)
  have d: "emit_all ?w2 socket (map Data late) = Inr ?w2"
    using l by (rule emit_all_no_listener)
  have e: "emitted ?w2 = emitted this"
    using call_plugin_frame [of this plugin socket] by (simp add: destroy_def update_socket_def)
  have f: "buffer_map ?w2 socket = None"
    using call_plugin_frame [of this plugin socket] assms(1) by (simp add: destroy_def update_socket_def)
  have g: "destroyed (sockets ?w2 socket) \<and> \<not> writable (sockets ?w2 socket)"
    by (simp add: destroy_def update_socket_def)
  from a b c d e f g show ?thesis
    by (simp only: Let_def simp_thms)
qed

theorem unauthorized_discard_witness:
  "onConnection (constructor default_config) (Some (\<lambda>sock. sock\<lparr>authorized := False\<rparr>)) (0::nat) =
     (destroy (call_plugin (constructor default_config) (Some (\<lambda>sock. sock\<lparr>authorized := False\<rparr>)) 0) 0, None)
   \<and> emit_all (call_plugin (constructor default_config) (Some (\<lambda>sock. sock\<lparr>authorized := False\<rparr>)) (0::nat)) 0
        (map Data [[CHR ''x'', CHR 0x1E]]) =
      Inr (call_plugin (constructor default_config) (Some (\<lambda>sock. sock\<lparr>authorized := False\<rparr>)) 0)
   \<and> emit_all (destroy (call_plugin (constructor default_config) (Some (\<lambda>sock. sock\<lparr>authorized := False\<rparr>)) (0::nat)) 0) 0
        (map Data [[CHR ''y'', CHR 0x1E]]) =
      Inr (destroy (call_plugin (constructor default_config) (Some (\<lambda>sock. sock\<lparr>authorized := False\<rparr>)) 0) 0)
   \<and> emitted (destroy (call_plugin (constructor default_config) (Some (\<lambda>sock. sock\<lparr>authorized := False\<rparr>)) (0::nat)) 0) = []
   \<and> buffer_map (destroy (call_plugin (constructor default_config) (Some (\<lambda>sock. sock\<lparr>authorized := False\<rparr>)) (0::nat)) 0) 0 = None
   \<and> \<not> writable (sockets (destroy (call_plugin (constructor default_config) (Some (\<lambda>sock. sock\<lparr>authorized := False\<rparr>)) (0::nat)) 0) 0)"
proof -
  let ?w = "constructor default_config :: nat world"
  let ?p = "Some (\<lambda>sock. sock\<lparr>authorized := False\<rparr>)"
  have h1: "buffer_map ?w 0 = None"
    by (simp add: constructor_def)
  have h2: "on_data (sockets (call_plugin ?w ?p 0) 0) = []"
    by (simp add: call_plugin_def update_socket_def constructor_def new_socket_def)
  have h3: "\<not> authorized (sockets (call_plugin ?w ?p 0) 0)"
    by (simp add: call_plugin_def update_socket_def)
  have e: "emitted ?w = []"
    by (simp add: constructor_def)
  note t = unauthorized_discard [OF h1 h2 h3, of "[[CHR ''x'', CHR 0x1E]]" "[[CHR ''y'', CHR 0x1E]]"]
  from t e show ?thesis
    by (simp only: Let_def simp_thms)
qed



end
